theory Spec2Isabelle
  imports Complex_Main
begin

section \<open>Values and the document store\<close>

text \<open>
  The route handlers of \<^verbatim>\<open>server/routes/incentives.js\<close>, \<^verbatim>\<open>collection.js\<close> and
  \<^verbatim>\<open>waste.js\<close> read and write JSON documents. JavaScript numbers are taken as exact
  rationals (so \<^verbatim>\<open>0.1\<close> is one tenth and \<^verbatim>\<open>Math.floor\<close> is the mathematical floor),
  timestamps as milliseconds since the epoch, and document ids as strings.
\<close>

type_synonym jsnum = rat
type_synonym docid = string
type_synonym millis = int

text \<open>\<^verbatim>\<open>x || 0\<close> on a numeric field that may be undefined.\<close>

definition or_zero :: "jsnum option \<Rightarrow> jsnum" where
  "or_zero v = (case v of None \<Rightarrow> 0 | Some x \<Rightarrow> x)"

text \<open>\<^verbatim>\<open>!x\<close> on a numeric request field: undefined and 0 are falsy.\<close>

definition falsy_num :: "jsnum option \<Rightarrow> bool" where
  "falsy_num v = (case v of None \<Rightarrow> True | Some x \<Rightarrow> x = 0)"

text \<open>\<^verbatim>\<open>Joi.number().integer()\<close>.\<close>

definition is_integer :: "jsnum \<Rightarrow> bool" where
  "is_integer x = (of_int (floor x) = x)"

text \<open>
  Modelled from the spec: \<^verbatim>\<open>FirestoreService\<close> (\<^verbatim>\<open>server/utils/firestore.js\<close>) is not
  among the sources. Section 4.3 of the specification describes it as a document store
  with \<^verbatim>\<open>get\<close>, \<^verbatim>\<open>create\<close> and an update that applies a patch to the stored document.
  A collection is the list of its documents in creation order, each with its id. The id
  that \<^verbatim>\<open>create\<close> assigns is chosen by the store and is an input of the model;
  \<^verbatim>\<open>update\<close> patches the document that \<^verbatim>\<open>getById\<close> returns and leaves a collection
  without that id as it is.
\<close>

type_synonym 'd collection = "(docid \<times> 'd) list"

fun getById :: "'d collection \<Rightarrow> docid \<Rightarrow> 'd option" where
  "getById [] k = None"
| "getById ((k', d) # c) k = (if k' = k then Some d else getById c k)"

definition create :: "'d collection \<Rightarrow> docid \<Rightarrow> 'd \<Rightarrow> 'd collection" where
  "create c k d = c @ [(k, d)]"

fun update :: "'d collection \<Rightarrow> docid \<Rightarrow> ('d \<Rightarrow> 'd) \<Rightarrow> 'd collection" where
  "update [] k f = []"
| "update ((k', d) # c) k f = (if k' = k then (k', f d) # c else (k', d) # update c k f)"

text \<open>
  What a handler reads from its environment: the clock and the ids of the documents it
  creates, \<^verbatim>\<open>newId\<close> for the first and \<^verbatim>\<open>nextId\<close> for a second one. A request is
  served at one instant, so every clock reading of a handler is \<^verbatim>\<open>now\<close>.
\<close>

record env =
  now :: millis
  newId :: docid
  nextId :: docid

datatype error =
    ValidationError
  | NotFound
  | InsufficientPoints jsnum jsnum
  | AlreadyPaid
  | InsufficientPayment jsnum jsnum

section \<open>Documents\<close>

text \<open>
  Optional string fields of a request body are strings, the empty string standing for an
  absent (or otherwise falsy) value: Joi's \<^verbatim>\<open>string()\<close> rejects the empty string, and
  the handlers without a schema test such fields with \<^verbatim>\<open>!x\<close>.
\<close>

text \<open>An element of \<^verbatim>\<open>penaltyHistory\<close> (citizen) or \<^verbatim>\<open>compliance.violations\<close> (bulk generator).\<close>

record history_entry =
  h_penaltyId :: docid
  h_amount :: jsnum
  h_type :: string
  h_issuedAt :: millis
  h_status :: string
  h_paidAt :: "millis option"

record citizen =
  rewardPoints :: "jsnum option"
  penaltyHistory :: "history_entry list"

record reward_entry =
  re_rewardId :: docid
  re_points :: jsnum
  re_date :: millis
  re_period :: string

record bulk_generator =
  incentives_points :: "jsnum option"
  incentives_rewards :: "reward_entry list"
  compliance_violations :: "history_entry list"

text \<open>An element of \<^verbatim>\<open>segregationCompliance.violations\<close> of a household.\<close>

record violation =
  v_type :: string
  v_reason :: string
  v_date :: millis

text \<open>The \<^verbatim>\<open>segregationCompliance\<close> object of a household document.\<close>

record household =
  score :: "jsnum option"
  lastAssessment :: "millis option"
  violations :: "violation list"
  hh_assessedBy :: string
  hh_notes :: string

record reward_req =
  bulkGeneratorId :: string
  segregationScore :: jsnum
  wasteQuantity :: jsnum
  qualityGrade :: string
  assessedBy :: string
  period :: string

text \<open>A document of \<^verbatim>\<open>incentive_rewards\<close>: the validated request (\<^verbatim>\<open>...value\<close>) and the award.\<close>

record incentive_reward =
  ir_value :: reward_req
  ir_pointsAwarded :: jsnum
  ir_basePoints :: jsnum
  ir_qualityMultiplier :: jsnum
  ir_scoreMultiplier :: jsnum
  ir_awardedAt :: millis
  ir_status :: string

record award_req =
  aw_citizenId :: string
  aw_points :: "jsnum option"
  aw_reason :: string
  aw_awardedBy :: string

record citizen_reward =
  cr_citizenId :: string
  cr_pointsAwarded :: jsnum
  cr_reason :: string
  cr_awardedBy :: string
  cr_awardedAt :: millis
  cr_type :: string

record redeem_req =
  rd_citizenId :: string
  rd_bulkGeneratorId :: string
  rd_points :: jsnum
  rd_rewardType :: string
  rd_rewardValue :: jsnum
  rd_rewardDescription :: string

text \<open>
  A document of \<^verbatim>\<open>point_redemptions\<close>; \<^verbatim>\<open>redemptionId\<close>, where there is one, is
  \<^verbatim>\<open>RED_\<close> and the clock reading.
\<close>

record redemption =
  red_data :: redeem_req
  red_redeemedAt :: millis
  red_status :: string
  red_redemptionId :: "millis option"

record penalty_req =
  violatorType :: string
  violatorId :: string
  violationType :: string
  amount :: jsnum
  description :: string
  evidence :: "string list"
  issuedBy :: string
  dueDate :: "millis option"

text \<open>
  A document of \<^verbatim>\<open>penalties\<close>: the validated request, whose \<^verbatim>\<open>dueDate\<close> the later key
  of the object literal overrides, and the fields the handlers add. \<^verbatim>\<open>penaltyId\<close> is
  \<^verbatim>\<open>PEN_\<close> and the clock reading.
\<close>

record penalty =
  pen_value :: penalty_req
  penaltyId :: millis
  issuedAt :: millis
  status :: string
  paidAt :: "millis option"
  paymentMethod :: "string option"
  pen_dueDate :: millis
  transactionId :: "string option"
  paidAmount :: "jsnum option"

record payment_req =
  pay_penaltyId :: string
  pay_paymentMethod :: string
  pay_transactionId :: string
  pay_paidAmount :: "jsnum option"

record reject_req =
  rj_householdId :: string
  rj_bulkGeneratorId :: string
  rj_reason :: string
  rj_photosEvidence :: "string list"
  rj_rejectedBy :: string

text \<open>A document of \<^verbatim>\<open>pickup_rejections\<close>.\<close>

record rejection =
  rjn_data :: reject_req
  rjn_rejectedAt :: millis
  rjn_followUpRequired :: bool
  rjn_status :: string

text \<open>An element of \<^verbatim>\<open>pickups\<close> in the body of a pickup completion.\<close>

record pickup =
  pk_householdId :: string
  pk_bulkGeneratorId :: string
  pk_wasteType :: string
  pk_weight :: jsnum
  segregationQuality :: string
  pk_notes :: string

record pickup_req =
  pc_vehicleId :: string
  pc_routeId :: string
  pickups :: "pickup list"
  totalWeight :: jsnum
  completedAt :: "millis option"

text \<open>A document of \<^verbatim>\<open>pickup_records\<close>.\<close>

record pickup_record =
  pr_value :: pickup_req
  pr_completedAt :: millis
  pr_recordedBy :: string

text \<open>The statistics of a document of \<^verbatim>\<open>collection_vehicles\<close>.\<close>

record vehicle =
  totalTrips :: "jsnum option"
  totalWasteCollected :: "jsnum option"

record address =
  street :: string
  area :: string
  pincode :: string
  city :: string
  phone :: string

record kit_order_req =
  customerId :: string
  customerType :: string
  kitType :: string
  variant :: string
  ko_quantity :: jsnum
  deliveryAddress :: address
  ko_paymentMethod :: string
  useRewardPoints :: bool
  pointsToRedeem :: jsnum

text \<open>
  A document of \<^verbatim>\<open>kit_orders\<close>: the fields copied from the validated request, and
  the computed ones; \<^verbatim>\<open>orderId\<close> is \<^verbatim>\<open>KIT_\<close> and the clock reading.
\<close>

record kit_order =
  od_value :: kit_order_req
  orderId :: millis
  unitPrice :: jsnum
  od_totalPrice :: jsnum
  pointsUsed :: jsnum
  od_pointsDiscount :: jsnum
  od_finalPrice :: jsnum
  orderDate :: millis
  od_status :: string
  od_estimatedDelivery :: millis
  paymentStatus :: string

record status_req =
  st_householdId :: string
  st_complianceScore :: "jsnum option"
  st_assessmentNotes :: string
  st_assessedBy :: string

record store =
  citizens :: "citizen collection"
  bulk_generators :: "bulk_generator collection"
  households :: "household collection"
  incentive_rewards :: "incentive_reward collection"
  citizen_rewards :: "citizen_reward collection"
  point_redemptions :: "redemption collection"
  penalties :: "penalty collection"
  pickup_rejections :: "rejection collection"
  pickup_records :: "pickup_record collection"
  collection_vehicles :: "vehicle collection"
  kit_orders :: "kit_order collection"

definition empty_store :: store where
  "empty_store = \<lparr>citizens = [], bulk_generators = [], households = [],
     incentive_rewards = [], citizen_rewards = [], point_redemptions = [],
     penalties = [], pickup_rejections = [], pickup_records = [],
     collection_vehicles = [], kit_orders = []\<rparr>"

text \<open>The balance a handler reads from a bulk generator: \<^verbatim>\<open>incentives?.points || 0\<close>.\<close>

definition bulkBalance :: "store \<Rightarrow> docid \<Rightarrow> jsnum" where
  "bulkBalance s k = (case getById (bulk_generators s) k of
     None \<Rightarrow> 0 | Some d \<Rightarrow> or_zero (incentives_points d))"

text \<open>The balance a handler reads from a citizen: \<^verbatim>\<open>rewardPoints || 0\<close>.\<close>

definition citizenBalance :: "store \<Rightarrow> docid \<Rightarrow> jsnum" where
  "citizenBalance s k = (case getById (citizens s) k of
     None \<Rightarrow> 0 | Some d \<Rightarrow> or_zero (rewardPoints d))"

section \<open>Registration\<close>

text \<open>
  \<^verbatim>\<open>POST /api/citizens/register\<close> and \<^verbatim>\<open>POST /api/waste/bulk-generator/register\<close>, once
  the personal data has passed its schema and the duplicate check: the ledger fields of
  the document they create.
\<close>

definition registerCitizen :: "env \<Rightarrow> store \<Rightarrow> store" where
  "registerCitizen e s = s\<lparr>citizens := create (citizens s) (newId e)
     \<lparr>rewardPoints = Some 0, penaltyHistory = []\<rparr>\<rparr>"

definition registerBulkGenerator :: "env \<Rightarrow> store \<Rightarrow> store" where
  "registerBulkGenerator e s = s\<lparr>bulk_generators := create (bulk_generators s) (newId e)
     \<lparr>incentives_points = Some 0, incentives_rewards = [], compliance_violations = []\<rparr>\<rparr>"

section \<open>POST /bulk-generator/reward\<close>

definition one_of :: "string \<Rightarrow> string list \<Rightarrow> bool" where
  "one_of x xs = (x \<in> set xs)"

definition rewardSchema :: "reward_req \<Rightarrow> bool" where
  "rewardSchema r =
     (bulkGeneratorId r \<noteq> [] \<and>
      0 \<le> segregationScore r \<and> segregationScore r \<le> 100 \<and>
      0 \<le> wasteQuantity r \<and>
      one_of (qualityGrade r) [''A'', ''B'', ''C'', ''D''] \<and>
      assessedBy r \<noteq> [] \<and>
      period r \<noteq> [])"

text \<open>The object literal \<^verbatim>\<open>{ 'A': 2, 'B': 1.5, 'C': 1, 'D': 0.5 }\<close> indexed by the grade.\<close>

definition qualityMultiplier :: "string \<Rightarrow> jsnum option" where
  "qualityMultiplier g = map_of [(''A'', 2), (''B'', 3 / 2), (''C'', 1), (''D'', 1 / 2)] g"

record reward_resp =
  rr_reward :: "docid \<times> incentive_reward"
  totalPointsAwarded :: jsnum
  newTotalPoints :: jsnum

text \<open>The local variables \<^verbatim>\<open>basePoints\<close>, \<^verbatim>\<open>scoreMultiplier\<close> and \<^verbatim>\<open>totalPoints\<close>.\<close>

definition basePoints :: "jsnum \<Rightarrow> jsnum" where
  "basePoints quantity = of_int (floor (quantity * (1 / 10)))"

definition scoreMultiplier :: "jsnum \<Rightarrow> jsnum" where
  "scoreMultiplier sc = sc / 100"

definition totalPoints :: "reward_req \<Rightarrow> jsnum \<Rightarrow> jsnum" where
  "totalPoints r qm =
     of_int (floor (basePoints (wasteQuantity r) * qm * scoreMultiplier (segregationScore r)))"

text \<open>
  The grade has passed the schema when the multiplier is looked up, so the lookup finds
  it; the branch for a missing key is there because the lookup is partial.
\<close>

definition reward :: "env \<Rightarrow> reward_req \<Rightarrow> store \<Rightarrow> (error + reward_resp) \<times> store" where
  "reward e r s =
     (if \<not> rewardSchema r then (Inl ValidationError, s)
      else case getById (bulk_generators s) (bulkGeneratorId r) of
        None \<Rightarrow> (Inl NotFound, s)
      | Some bulkGenerator \<Rightarrow>
          (case qualityMultiplier (qualityGrade r) of
             None \<Rightarrow> (Inl ValidationError, s)
           | Some qm \<Rightarrow>
               let rewardData = \<lparr>ir_value = r, ir_pointsAwarded = totalPoints r qm,
                     ir_basePoints = basePoints (wasteQuantity r), ir_qualityMultiplier = qm,
                     ir_scoreMultiplier = scoreMultiplier (segregationScore r),
                     ir_awardedAt = now e, ir_status = ''awarded''\<rparr>;
                   s1 = s\<lparr>incentive_rewards := create (incentive_rewards s) (newId e) rewardData\<rparr>;
                   currentPoints = or_zero (incentives_points bulkGenerator);
                   s2 = s1\<lparr>bulk_generators := update (bulk_generators s1) (bulkGeneratorId r)
                     (\<lambda>d. d\<lparr>incentives_points := Some (currentPoints + totalPoints r qm),
                            incentives_rewards := incentives_rewards bulkGenerator @
                              [\<lparr>re_rewardId = newId e, re_points = totalPoints r qm,
                                re_date = now e, re_period = period r\<rparr>]\<rparr>)\<rparr>
               in (Inr \<lparr>rr_reward = (newId e, rewardData),
                        totalPointsAwarded = totalPoints r qm,
                        newTotalPoints = currentPoints + totalPoints r qm\<rparr>, s2)))"



section \<open>POST /citizen/award\<close>

text \<open>
  The body is not validated by a schema. Past the test \<^verbatim>\<open>!points\<close> the field holds a
  number other than 0, which \<^const>\<open>or_zero\<close> reads.
\<close>

record award_resp =
  ar_reward :: "docid \<times> citizen_reward"
  ar_newTotalPoints :: jsnum

definition citizenAward :: "env \<Rightarrow> award_req \<Rightarrow> store \<Rightarrow> (error + award_resp) \<times> store" where
  "citizenAward e r s =
     (if aw_citizenId r = [] \<or> falsy_num (aw_points r) \<or> aw_reason r = []
      then (Inl ValidationError, s)
      else case getById (citizens s) (aw_citizenId r) of
        None \<Rightarrow> (Inl NotFound, s)
      | Some citizen \<Rightarrow>
          let points = or_zero (aw_points r);
              rewardData = \<lparr>cr_citizenId = aw_citizenId r, cr_pointsAwarded = points,
                cr_reason = aw_reason r, cr_awardedBy = aw_awardedBy r,
                cr_awardedAt = now e, cr_type = ''bonus''\<rparr>;
              s1 = s\<lparr>citizen_rewards := create (citizen_rewards s) (newId e) rewardData\<rparr>;
              newTotal = or_zero (rewardPoints citizen) + points;
              s2 = s1\<lparr>citizens := update (citizens s1) (aw_citizenId r)
                (\<lambda>d. d\<lparr>rewardPoints := Some newTotal\<rparr>)\<rparr>
          in (Inr \<lparr>ar_reward = (newId e, rewardData), ar_newTotalPoints = newTotal\<rparr>, s2))"

section \<open>POST /redeem\<close>

definition redeemSchema :: "redeem_req \<Rightarrow> bool" where
  "redeemSchema r =
     (is_integer (rd_points r) \<and> 1 \<le> rd_points r \<and>
      one_of (rd_rewardType r) [''cash'', ''voucher'', ''product'', ''service''] \<and>
      0 \<le> rd_rewardValue r \<and>
      rd_rewardDescription r \<noteq> [])"

text \<open>The variables \<^verbatim>\<open>user\<close> and \<^verbatim>\<open>userType\<close>: a citizen id is looked at first.\<close>

datatype user = CitizenUser docid citizen | BulkGeneratorUser docid bulk_generator

definition findUser :: "redeem_req \<Rightarrow> store \<Rightarrow> user option" where
  "findUser r s =
     (if rd_citizenId r \<noteq> []
      then map_option (CitizenUser (rd_citizenId r)) (getById (citizens s) (rd_citizenId r))
      else if rd_bulkGeneratorId r \<noteq> []
      then map_option (BulkGeneratorUser (rd_bulkGeneratorId r))
             (getById (bulk_generators s) (rd_bulkGeneratorId r))
      else None)"

fun availablePoints :: "user \<Rightarrow> jsnum" where
  "availablePoints (CitizenUser k c) = or_zero (rewardPoints c)"
| "availablePoints (BulkGeneratorUser k b) = or_zero (incentives_points b)"

fun setPoints :: "user \<Rightarrow> jsnum \<Rightarrow> store \<Rightarrow> store" where
  "setPoints (CitizenUser k c) n s =
     s\<lparr>citizens := update (citizens s) k (\<lambda>d. d\<lparr>rewardPoints := Some n\<rparr>)\<rparr>"
| "setPoints (BulkGeneratorUser k b) n s =
     s\<lparr>bulk_generators := update (bulk_generators s) k (\<lambda>d. d\<lparr>incentives_points := Some n\<rparr>)\<rparr>"

text \<open>The balance of the account of a user, as a handler reads it from a store.\<close>

fun userBalance :: "store \<Rightarrow> user \<Rightarrow> jsnum" where
  "userBalance s (CitizenUser k c) = citizenBalance s k"
| "userBalance s (BulkGeneratorUser k b) = bulkBalance s k"

record redeem_resp =
  rs_redemption :: "docid \<times> redemption"
  previousBalance :: jsnum
  newBalance :: jsnum
  pointsRedeemed :: jsnum

definition redeem :: "env \<Rightarrow> redeem_req \<Rightarrow> store \<Rightarrow> (error + redeem_resp) \<times> store" where
  "redeem e r s =
     (if \<not> redeemSchema r then (Inl ValidationError, s)
      else case findUser r s of
        None \<Rightarrow> (Inl NotFound, s)
      | Some user \<Rightarrow>
          let available = availablePoints user
          in if available < rd_points r
             then (Inl (InsufficientPoints available (rd_points r)), s)
             else
               let redemptionData = \<lparr>red_data = r, red_redeemedAt = now e,
                     red_status = ''processed'', red_redemptionId = Some (now e)\<rparr>;
                   s1 = s\<lparr>point_redemptions :=
                     create (point_redemptions s) (newId e) redemptionData\<rparr>;
                   newPointBalance = available - rd_points r;
                   s2 = setPoints user newPointBalance s1
               in (Inr \<lparr>rs_redemption = (newId e, redemptionData),
                        previousBalance = available, newBalance = newPointBalance,
                        pointsRedeemed = rd_points r\<rparr>, s2))"

section \<open>POST /compost-kits/order\<close>

text \<open>The patterns of the pin code and the phone number: exactly \<open>n\<close> decimal digits.\<close>

definition digits :: "nat \<Rightarrow> string \<Rightarrow> bool" where
  "digits n x = (length x = n \<and> list_all (\<lambda>c. c \<in> set ''0123456789'') x)"

definition kitOrderSchema :: "kit_order_req \<Rightarrow> bool" where
  "kitOrderSchema r =
     (customerId r \<noteq> [] \<and>
      one_of (customerType r) [''citizen'', ''bulk_generator''] \<and>
      one_of (kitType r) [''compost'', ''dustbin_set''] \<and>
      variant r \<noteq> [] \<and>
      is_integer (ko_quantity r) \<and> 1 \<le> ko_quantity r \<and> ko_quantity r \<le> 10 \<and>
      street (deliveryAddress r) \<noteq> [] \<and> area (deliveryAddress r) \<noteq> [] \<and>
      digits 6 (pincode (deliveryAddress r)) \<and> city (deliveryAddress r) \<noteq> [] \<and>
      digits 10 (phone (deliveryAddress r)) \<and>
      one_of (ko_paymentMethod r) [''cash'', ''online'', ''points''] \<and>
      is_integer (pointsToRedeem r) \<and> 0 \<le> pointsToRedeem r)"

text \<open>The table \<^verbatim>\<open>productPrices\<close>: price and points required of a variant.\<close>

definition productPrices :: "string \<Rightarrow> (jsnum \<times> jsnum) option" where
  "productPrices v = map_of [(''compost_basic_001'', (1500, 150)),
     (''compost_advanced_002'', (3500, 350)), (''compost_premium_003'', (8500, 850))] v"

definition findCustomer :: "kit_order_req \<Rightarrow> store \<Rightarrow> user option" where
  "findCustomer r s =
     (if customerType r = ''citizen''
      then map_option (CitizenUser (customerId r)) (getById (citizens s) (customerId r))
      else map_option (BulkGeneratorUser (customerId r))
             (getById (bulk_generators s) (customerId r)))"

record kit_order_resp =
  kr_order :: "docid \<times> kit_order"
  kr_estimatedDelivery :: millis
  paymentRequired :: jsnum

definition kitOrder ::
  "env \<Rightarrow> kit_order_req \<Rightarrow> store \<Rightarrow> (error + kit_order_resp) \<times> store" where
  "kitOrder e r s =
     (if \<not> kitOrderSchema r then (Inl ValidationError, s)
      else case findCustomer r s of
        None \<Rightarrow> (Inl NotFound, s)
      | Some customer \<Rightarrow>
          if useRewardPoints r \<and> 0 < pointsToRedeem r
             \<and> availablePoints customer < pointsToRedeem r
          then (Inl (InsufficientPoints (availablePoints customer) (pointsToRedeem r)), s)
          else case productPrices (variant r) of
            None \<Rightarrow> (Inl NotFound, s)
          | Some product \<Rightarrow>
              let totalPrice = fst product * ko_quantity r;
                  pointsDiscount = pointsToRedeem r * 10;
                  finalPrice = max 0 (totalPrice - pointsDiscount);
                  orderData = \<lparr>od_value = r, orderId = now e, unitPrice = fst product,
                    od_totalPrice = totalPrice, pointsUsed = pointsToRedeem r,
                    od_pointsDiscount = pointsDiscount, od_finalPrice = finalPrice,
                    orderDate = now e, od_status = ''confirmed'',
                    od_estimatedDelivery = now e + 7 * 24 * 60 * 60 * 1000,
                    paymentStatus =
                      (if ko_paymentMethod r = ''cash'' then ''pending'' else ''completed'')\<rparr>;
                  s1 = s\<lparr>kit_orders := create (kit_orders s) (newId e) orderData\<rparr>;
                  s3 = (if useRewardPoints r \<and> 0 < pointsToRedeem r
                        then
                          let newPoints = availablePoints customer - pointsToRedeem r;
                              s2 = setPoints customer newPoints s1
                          in s2\<lparr>point_redemptions := create (point_redemptions s2) (nextId e)
                               \<lparr>red_data = \<lparr>
                                  rd_citizenId =
                                    (if customerType r = ''citizen'' then customerId r else []),
                                  rd_bulkGeneratorId =
                                    (if customerType r = ''bulk_generator'' then customerId r
                                     else []),
                                  rd_points = pointsToRedeem r, rd_rewardType = ''product'',
                                  rd_rewardValue = pointsDiscount,
                                  rd_rewardDescription =
                                    ''Discount on '' @ kitType r @ '' order #'' @ newId e\<rparr>,
                                red_redeemedAt = now e, red_status = ''processed'',
                                red_redemptionId = None\<rparr>\<rparr>
                        else s1)
              in (Inr \<lparr>kr_order = (newId e, orderData),
                       kr_estimatedDelivery = od_estimatedDelivery orderData,
                       paymentRequired = (if 0 < finalPrice then finalPrice else 0)\<rparr>, s3))"

section \<open>POST /impose\<close>

definition penaltySchema :: "penalty_req \<Rightarrow> bool" where
  "penaltySchema r =
     (one_of (violatorType r) [''citizen'', ''bulk_generator''] \<and>
      violatorId r \<noteq> [] \<and>
      one_of (violationType r)
        [''improper_segregation'', ''illegal_dumping'', ''non_compliance'', ''late_payment''] \<and>
      0 \<le> amount r \<and>
      description r \<noteq> [] \<and>
      list_all (\<lambda>x. x \<noteq> []) (evidence r) \<and>
      issuedBy r \<noteq> [])"

text \<open>\<^verbatim>\<open>30 * 24 * 60 * 60 * 1000\<close> milliseconds.\<close>

definition thirtyDays :: millis where
  "thirtyDays = 30 * 24 * 60 * 60 * 1000"

definition newPenalty :: "env \<Rightarrow> penalty_req \<Rightarrow> history_entry" where
  "newPenalty e r = \<lparr>h_penaltyId = newId e, h_amount = amount r, h_type = violationType r,
     h_issuedAt = now e, h_status = ''unpaid'', h_paidAt = None\<rparr>"

text \<open>The object \<^verbatim>\<open>penaltyData\<close>.\<close>

definition penaltyData :: "env \<Rightarrow> penalty_req \<Rightarrow> penalty" where
  "penaltyData e r = \<lparr>pen_value = r, penaltyId = now e, issuedAt = now e,
     status = ''issued'', paidAt = None, paymentMethod = None,
     pen_dueDate = (case dueDate r of Some d \<Rightarrow> d | None \<Rightarrow> now e + thirtyDays),
     transactionId = None, paidAmount = None\<rparr>"

definition impose :: "env \<Rightarrow> penalty_req \<Rightarrow> store \<Rightarrow> (error + docid \<times> penalty) \<times> store" where
  "impose e r s =
     (if \<not> penaltySchema r then (Inl ValidationError, s)
      else
        let s1 = s\<lparr>penalties := create (penalties s) (newId e) (penaltyData e r)\<rparr>;
            s2 = (if violatorType r = ''citizen''
                  then (case getById (citizens s1) (violatorId r) of
                          None \<Rightarrow> s1
                        | Some violator \<Rightarrow>
                            s1\<lparr>citizens := update (citizens s1) (violatorId r)
                              (\<lambda>d. d\<lparr>penaltyHistory :=
                                 penaltyHistory violator @ [newPenalty e r]\<rparr>)\<rparr>)
                  else (case getById (bulk_generators s1) (violatorId r) of
                          None \<Rightarrow> s1
                        | Some violator \<Rightarrow>
                            s1\<lparr>bulk_generators := update (bulk_generators s1) (violatorId r)
                              (\<lambda>d. d\<lparr>compliance_violations :=
                                 compliance_violations violator @ [newPenalty e r]\<rparr>)\<rparr>))
        in (Inr (newId e, penaltyData e r), s2))"

section \<open>PUT /payment\<close>

text \<open>The callback of \<^verbatim>\<open>history.map\<close>.\<close>

definition markPaid :: "docid \<Rightarrow> millis \<Rightarrow> history_entry \<Rightarrow> history_entry" where
  "markPaid k t h =
     (if h_penaltyId h = k then h\<lparr>h_status := ''paid'', h_paidAt := Some t\<rparr> else h)"

text \<open>
  The object \<^verbatim>\<open>updateData\<close>, as the patch it is for the stored penalty. The body is
  not validated by a schema; past the test \<^verbatim>\<open>!paidAmount\<close> the field holds a number
  other than 0, which \<^const>\<open>or_zero\<close> reads.
\<close>

definition updateData :: "env \<Rightarrow> payment_req \<Rightarrow> penalty \<Rightarrow> penalty" where
  "updateData e r d = d\<lparr>status := ''paid'', paidAt := Some (now e),
     paymentMethod := Some (pay_paymentMethod r),
     transactionId := Some (pay_transactionId r),
     paidAmount := pay_paidAmount r\<rparr>"

definition payment :: "env \<Rightarrow> payment_req \<Rightarrow> store \<Rightarrow> (error + penalty) \<times> store" where
  "payment e r s =
     (if pay_penaltyId r = [] \<or> pay_paymentMethod r = [] \<or> falsy_num (pay_paidAmount r)
      then (Inl ValidationError, s)
      else case getById (penalties s) (pay_penaltyId r) of
        None \<Rightarrow> (Inl NotFound, s)
      | Some penalty \<Rightarrow>
          if status penalty = ''paid'' then (Inl AlreadyPaid, s)
          else if or_zero (pay_paidAmount r) < amount (pen_value penalty)
          then (Inl (InsufficientPayment (amount (pen_value penalty))
                       (or_zero (pay_paidAmount r))), s)
          else
            let s1 = s\<lparr>penalties := update (penalties s) (pay_penaltyId r) (updateData e r)\<rparr>;
                vid = violatorId (pen_value penalty);
                s2 = (if violatorType (pen_value penalty) = ''citizen''
                      then (case getById (citizens s1) vid of
                              None \<Rightarrow> s1
                            | Some violator \<Rightarrow>
                                s1\<lparr>citizens := update (citizens s1) vid
                                  (\<lambda>d. d\<lparr>penaltyHistory :=
                                     map (markPaid (pay_penaltyId r) (now e))
                                       (penaltyHistory violator)\<rparr>)\<rparr>)
                      else (case getById (bulk_generators s1) vid of
                              None \<Rightarrow> s1
                            | Some violator \<Rightarrow>
                                s1\<lparr>bulk_generators := update (bulk_generators s1) vid
                                  (\<lambda>d. d\<lparr>compliance_violations :=
                                     map (markPaid (pay_penaltyId r) (now e))
                                       (compliance_violations violator)\<rparr>)\<rparr>))
            in (Inr (updateData e r penalty), s2))"

section \<open>GET /statistics\<close>




section \<open>Compliance score of a household\<close>

text \<open>The conditional chain of \<^verbatim>\<open>POST /pickup/complete\<close>.\<close>

definition qualityScore :: "string \<Rightarrow> jsnum" where
  "qualityScore q =
     (if q = ''excellent'' then 10 else if q = ''good'' then 8 else if q = ''poor'' then 4 else 0)"



definition applyPickupQuality :: "env \<Rightarrow> pickup \<Rightarrow> store \<Rightarrow> store" where
  "applyPickupQuality e p s =
     (if pk_householdId p = [] then s
      else case getById (households s) (pk_householdId p) of
        None \<Rightarrow> s
      | Some household \<Rightarrow>
          let newScore = min 100 (or_zero (score household) + qualityScore (segregationQuality p))
          in s\<lparr>households := update (households s) (pk_householdId p)
               (\<lambda>d. d\<lparr>score := Some newScore, lastAssessment := Some (now e)\<rparr>)\<rparr>)"



text \<open>\<^verbatim>\<open>PUT /pickup/reject\<close>.\<close>

definition pickupReject :: "env \<Rightarrow> reject_req \<Rightarrow> store \<Rightarrow> (error + docid \<times> rejection) \<times> store" where
  "pickupReject e r s =
     (if (rj_householdId r = [] \<and> rj_bulkGeneratorId r = []) \<or> rj_reason r = []
      then (Inl ValidationError, s)
      else
        let rejectionData = \<lparr>rjn_data = r, rjn_rejectedAt = now e,
              rjn_followUpRequired = True, rjn_status = ''rejected''\<rparr>;
            s1 = s\<lparr>pickup_rejections := create (pickup_rejections s) (newId e) rejectionData\<rparr>;
            s2 = (if rj_householdId r = [] then s1
                  else case getById (households s1) (rj_householdId r) of
                    None \<Rightarrow> s1
                  | Some household \<Rightarrow>
                      let penaltyScore = 15;
                          newScore = max 0 (or_zero (score household) - penaltyScore)
                      in s1\<lparr>households := update (households s1) (rj_householdId r)
                           (\<lambda>d. d\<lparr>score := Some newScore,
                                  violations := violations household @
                                    [\<lparr>v_type = ''pickup_rejection'', v_reason = rj_reason r,
                                      v_date = now e\<rparr>]\<rparr>)\<rparr>)
        in (Inr (newId e, rejectionData), s2))"

text \<open>\<^verbatim>\<open>PUT /household/segregation-status\<close>; the answer is the document after the update.\<close>

definition segregationStatus :: "env \<Rightarrow> status_req \<Rightarrow> store \<Rightarrow> (error + household option) \<times> store" where
  "segregationStatus e r s =
     (case st_complianceScore r of
        None \<Rightarrow> (Inl ValidationError, s)
      | Some complianceScore \<Rightarrow>
          if st_householdId r = [] then (Inl ValidationError, s)
          else
            let s1 = s\<lparr>households := update (households s) (st_householdId r)
                  (\<lambda>d. d\<lparr>score := Some complianceScore, lastAssessment := Some (now e),
                         hh_assessedBy := st_assessedBy r, hh_notes := st_assessmentNotes r\<rparr>)\<rparr>
            in (Inr (getById (households s1) (st_householdId r)), s1))"

text \<open>The score a handler reads from a household: \<^verbatim>\<open>segregationCompliance?.score || 0\<close>.\<close>

definition complianceScore :: "store \<Rightarrow> docid \<Rightarrow> jsnum" where
  "complianceScore s k = (case getById (households s) k of
     None \<Rightarrow> 0 | Some d \<Rightarrow> or_zero (score d))"

section \<open>Sequences of requests\<close>

datatype request =
    RegisterCitizen
  | RegisterBulkGenerator
  | Reward reward_req
  | CitizenAward award_req
  | Redeem redeem_req
  | KitOrder kit_order_req
  | Impose penalty_req
  | Payment payment_req

fun handle :: "env \<Rightarrow> request \<Rightarrow> store \<Rightarrow> store" where
  "handle e RegisterCitizen s = registerCitizen e s"
| "handle e RegisterBulkGenerator s = registerBulkGenerator e s"
| "handle e (Reward r) s = snd (reward e r s)"
| "handle e (CitizenAward r) s = snd (citizenAward e r s)"
| "handle e (Redeem r) s = snd (redeem e r s)"
| "handle e (KitOrder r) s = snd (kitOrder e r s)"
| "handle e (Impose r) s = snd (impose e r s)"
| "handle e (Payment r) s = snd (payment e r s)"

text \<open>Requests are served one after the other, each with its own clock reading and new id.\<close>

fun run :: "store \<Rightarrow> (env \<times> request) list \<Rightarrow> store" where
  "run s [] = s"
| "run s ((e, q) # qs) = run (handle e q s) qs"

section \<open>Invariants\<close>

text \<open>A balance that is an integer and at least 0, and a store all of whose balances are.\<close>

definition nonneg_integer :: "jsnum \<Rightarrow> bool" where
  "nonneg_integer x = (is_integer x \<and> 0 \<le> x)"

definition balancesOk :: "store \<Rightarrow> bool" where
  "balancesOk s =
     (list_all (\<lambda>kd. nonneg_integer (or_zero (rewardPoints (snd kd)))) (citizens s) \<and>
      list_all (\<lambda>kd. nonneg_integer (or_zero (incentives_points (snd kd)))) (bulk_generators s))"

fun awardOrRedeem :: "request \<Rightarrow> bool" where
  "awardOrRedeem RegisterCitizen = True"
| "awardOrRedeem RegisterBulkGenerator = True"
| "awardOrRedeem (Reward r) = True"
| "awardOrRedeem (Redeem r) = True"
| "awardOrRedeem (CitizenAward r) = False"
| "awardOrRedeem (KitOrder r) = False"
| "awardOrRedeem (Impose r) = False"
| "awardOrRedeem (Payment r) = False"







section \<open>Example data\<close>

definition example_env :: env where
  "example_env = \<lparr>now = 1000, newId = ''d1'', nextId = ''n1''\<rparr>"

definition later_env :: env where
  "later_env = \<lparr>now = 2000, newId = ''d2'', nextId = ''n2''\<rparr>"

definition example_store :: store where
  "example_store = empty_store\<lparr>
     citizens := [(''c1'', \<lparr>rewardPoints = Some 20, penaltyHistory = []\<rparr>)],
     bulk_generators := [(''g1'', \<lparr>incentives_points = Some 0, incentives_rewards = [],
       compliance_violations = []\<rparr>)],
     households := [(''h1'', \<lparr>score = Some 95, lastAssessment = None, violations = [],
       hh_assessedBy = [], hh_notes = []\<rparr>)]\<rparr>"

definition example_reward :: reward_req where
  "example_reward = \<lparr>bulkGeneratorId = ''g1'', segregationScore = 100, wasteQuantity = 100,
     qualityGrade = ''A'', assessedBy = ''officer'', period = ''2024-01''\<rparr>"


definition negative_award :: award_req where
  "negative_award = \<lparr>aw_citizenId = ''c1'', aw_points = Some (- 50),
     aw_reason = ''correction'', aw_awardedBy = ''admin''\<rparr>"


definition example_penalty :: penalty_req where
  "example_penalty = \<lparr>violatorType = ''citizen'', violatorId = ''c1'',
     violationType = ''improper_segregation'', amount = 500, description = ''mixed waste'',
     evidence = [], issuedBy = ''officer'', dueDate = None\<rparr>"

definition example_payment :: payment_req where
  "example_payment = \<lparr>pay_penaltyId = ''d1'', pay_paymentMethod = ''upi'',
     pay_transactionId = ''t1'', pay_paidAmount = Some 500\<rparr>"




definition example_status :: status_req where
  "example_status = \<lparr>st_householdId = ''h1'', st_complianceScore = Some 150,
     st_assessmentNotes = [], st_assessedBy = ''officer''\<rparr>"

definition example_requests :: "(env \<times> request) list" where
  "example_requests =
     [(\<lparr>now = 500, newId = ''g2'', nextId = ''n0''\<rparr>, RegisterBulkGenerator),
      (example_env, Reward (example_reward\<lparr>bulkGeneratorId := ''g2''\<rparr>)),
      (later_env, Redeem \<lparr>rd_citizenId = [], rd_bulkGeneratorId = ''g2'', rd_points = 5,
         rd_rewardType = ''cash'', rd_rewardValue = 50, rd_rewardDescription = ''cash back''\<rparr>)]"

section \<open>Properties of the store\<close>

lemma getById_update:
  "getById (update c k f) k' = (if k' = k then map_option f (getById c k) else getById c k')"
  by (induction c) auto

lemma or_zero_simps [simp]: "or_zero None = 0" "or_zero (Some x) = x"
  by (simp_all add: or_zero_def)


section \<open>The reward formula\<close>



section \<open>Redemption\<close>

lemma findUser_balance:
  "findUser r s = Some u \<Longrightarrow> userBalance s u = availablePoints u"
  by (cases u) (auto simp: findUser_def citizenBalance_def bulkBalance_def split: if_splits)





section \<open>The citizen bonus\<close>

text \<open>
  C10. \<^verbatim>\<open>POST /citizen/award\<close> answers with a validation error exactly when the citizen
  id, the points or the reason is falsy. For every number of points, with a truthy id and
  reason and a stored citizen, the balance afterwards is the balance before plus the
  points (when the points are not 0 the answer reports that sum); nothing checks range,
  sign or integrality. Awarding -50 to a citizen with balance 20 leaves the balance -30.
\<close>

theorem citizenAward_unchecked_points:
  "(fst (citizenAward e r s) = Inl ValidationError
      \<longleftrightarrow> aw_citizenId r = [] \<or> falsy_num (aw_points r) \<or> aw_reason r = [])
   \<and> (aw_citizenId r \<noteq> [] \<and> aw_reason r \<noteq> [] \<and> aw_points r = Some p
        \<and> getById (citizens s) (aw_citizenId r) = Some c
      \<longrightarrow> citizenBalance (snd (citizenAward e r s)) (aw_citizenId r)
            = citizenBalance s (aw_citizenId r) + p
        \<and> (p \<noteq> 0 \<longrightarrow> (\<exists>resp. fst (citizenAward e r s) = Inr resp
              \<and> ar_newTotalPoints resp = citizenBalance s (aw_citizenId r) + p)))
   \<and> citizenBalance (snd (citizenAward example_env
        negative_award example_store)) ''c1'' = - 30"
proof -
  have a: "fst (citizenAward e r s) = Inl ValidationError
      \<longleftrightarrow> aw_citizenId r = [] \<or> falsy_num (aw_points r) \<or> aw_reason r = []"
    by (simp add: citizenAward_def Let_def split: option.splits)
  have b: "aw_citizenId r \<noteq> [] \<and> aw_reason r \<noteq> [] \<and> aw_points r = Some p
        \<and> getById (citizens s) (aw_citizenId r) = Some c
      \<longrightarrow> citizenBalance (snd (citizenAward e r s)) (aw_citizenId r)
            = citizenBalance s (aw_citizenId r) + p
        \<and> (p \<noteq> 0 \<longrightarrow> (\<exists>resp. fst (citizenAward e r s) = Inr resp
              \<and> ar_newTotalPoints resp = citizenBalance s (aw_citizenId r) + p))"
    by (simp add: citizenAward_def Let_def citizenBalance_def getById_update falsy_num_def
        or_zero_def)
  have c: "citizenBalance (snd (citizenAward example_env
        negative_award example_store)) ''c1'' = - 30"
    by (simp add: citizenAward_def Let_def citizenBalance_def falsy_num_def
        or_zero_def example_store_def empty_store_def example_env_def negative_award_def)
  from a b c show ?thesis by blast
qed

theorem citizenAward_unchecked_points_witness:
  "aw_citizenId negative_award \<noteq> [] \<and> aw_reason negative_award \<noteq> []
   \<and> aw_points negative_award = Some (- 50)
   \<and> getById (citizens example_store) (aw_citizenId negative_award)
       = Some \<lparr>rewardPoints = Some 20, penaltyHistory = []\<rparr>
   \<and> citizenBalance example_store ''c1'' = 20
   \<and> citizenBalance (snd (citizenAward example_env negative_award example_store)) ''c1''
       = 20 + (- 50)"
proof -
  have h: "aw_citizenId negative_award \<noteq> [] \<and> aw_reason negative_award \<noteq> []
   \<and> aw_points negative_award = Some (- 50)
   \<and> getById (citizens example_store) (aw_citizenId negative_award)
       = Some \<lparr>rewardPoints = Some 20, penaltyHistory = []\<rparr>"
    by (simp add: negative_award_def example_store_def empty_store_def)
  have b: "citizenBalance example_store ''c1'' = 20"
    by (simp add: citizenBalance_def example_store_def empty_store_def or_zero_def)
  have i: "aw_citizenId negative_award = ''c1''"
    by (simp add: negative_award_def)
  from citizenAward_unchecked_points [of example_env negative_award example_store "- 50"
      "\<lparr>rewardPoints = Some 20, penaltyHistory = []\<rparr>"] h
  have "citizenBalance (snd (citizenAward example_env negative_award example_store))
      (aw_citizenId negative_award)
    = citizenBalance example_store (aw_citizenId negative_award) + (- 50)"
    by blast
  with h b i show ?thesis by simp
qed

section \<open>Compliance score\<close>




text \<open>
  The two operations that change a score by a delta keep a score that lies between 0 and
  100 in that range.
\<close>

lemma qualityScore_nonneg: "0 \<le> qualityScore q"
  by (simp add: qualityScore_def)

lemma applyPickupQuality_range:
  assumes "0 \<le> complianceScore s k" and "complianceScore s k \<le> 100"
  shows "0 \<le> complianceScore (applyPickupQuality e p s) k
    \<and> complianceScore (applyPickupQuality e p s) k \<le> 100"
  using assms qualityScore_nonneg [of "segregationQuality p"]
  by (auto simp: applyPickupQuality_def Let_def complianceScore_def getById_update
      split: option.splits)

lemma pickupReject_range:
  assumes "0 \<le> complianceScore s k" and "complianceScore s k \<le> 100"
  shows "0 \<le> complianceScore (snd (pickupReject e r s)) k
    \<and> complianceScore (snd (pickupReject e r s)) k \<le> 100"
  using assms
  by (auto simp: pickupReject_def Let_def complianceScore_def getById_update
      split: option.splits)

text \<open>
  C2. \<^verbatim>\<open>PUT /household/segregation-status\<close> stores the compliance score of the request
  as it is: after a request with score 150 for a stored household the score read from the
  store is 150, outside the range from 0 to 100.
\<close>

theorem segregationStatus_not_clamped:
  "complianceScore (snd (segregationStatus example_env
      example_status example_store)) ''h1'' = 150"
  by (simp add: segregationStatus_def Let_def complianceScore_def or_zero_def
      example_store_def empty_store_def example_env_def example_status_def)

section \<open>Penalties\<close>

text \<open>
  C6. After a payment that succeeded, a second payment request for the same penalty id
  (with a truthy payment method and paid amount) answers AlreadyPaid and leaves the store
  as the first payment left it: the stored penalty is the one the first payment answered
  with, status paid, with the time, amount and method of the first payment.
\<close>

theorem payment_twice:
  assumes "fst (payment e1 r1 s) = Inr p1"
    and "pay_penaltyId r2 = pay_penaltyId r1"
    and "pay_paymentMethod r2 \<noteq> []"
    and "\<not> falsy_num (pay_paidAmount r2)"
  shows "payment e2 r2 (snd (payment e1 r1 s)) = (Inl AlreadyPaid, snd (payment e1 r1 s))
     \<and> getById (penalties (snd (payment e1 r1 s))) (pay_penaltyId r1) = Some p1
     \<and> status p1 = ''paid'' \<and> paidAt p1 = Some (now e1)
     \<and> paidAmount p1 = pay_paidAmount r1
     \<and> paymentMethod p1 = Some (pay_paymentMethod r1)"
proof -
  from assms(1) obtain pen where
    ok: "pay_penaltyId r1 \<noteq> []"
    and pen: "getById (penalties s) (pay_penaltyId r1) = Some pen"
    and p1: "p1 = updateData e1 r1 pen"
    and st: "penalties (snd (payment e1 r1 s))
      = update (penalties s) (pay_penaltyId r1) (updateData e1 r1)"
    by (auto simp: payment_def Let_def split: option.splits if_splits)
  have g: "getById (penalties (snd (payment e1 r1 s))) (pay_penaltyId r1) = Some p1"
    by (simp add: st getById_update pen p1)
  have "payment e2 r2 (snd (payment e1 r1 s)) = (Inl AlreadyPaid, snd (payment e1 r1 s))"
    using assms(2-4) ok g p1 by (simp add: payment_def updateData_def)
  with g p1 show ?thesis by (simp add: updateData_def)
qed

theorem payment_twice_witness:
  "fst (payment later_env example_payment
          (snd (impose example_env example_penalty example_store)))
     = Inr \<lparr>pen_value = example_penalty, penaltyId = 1000, issuedAt = 1000,
         status = ''paid'', paidAt = Some 2000, paymentMethod = Some ''upi'',
         pen_dueDate = 2592001000, transactionId = Some ''t1'', paidAmount = Some 500\<rparr>
   \<and> pay_paymentMethod (example_payment\<lparr>pay_paidAmount := Some 700\<rparr>) \<noteq> []
   \<and> \<not> falsy_num (pay_paidAmount (example_payment\<lparr>pay_paidAmount := Some 700\<rparr>))
   \<and> fst (payment example_env (example_payment\<lparr>pay_paidAmount := Some 700\<rparr>)
       (snd (payment later_env example_payment
          (snd (impose example_env example_penalty example_store)))))
     = Inl AlreadyPaid
   \<and> map_option paidAmount (getById (penalties
       (snd (payment example_env (example_payment\<lparr>pay_paidAmount := Some 700\<rparr>)
         (snd (payment later_env example_payment
           (snd (impose example_env example_penalty example_store))))))) ''d1'')
     = Some (Some 500)"
proof -
  have h1: "fst (payment later_env example_payment
          (snd (impose example_env example_penalty example_store)))
     = Inr \<lparr>pen_value = example_penalty, penaltyId = 1000, issuedAt = 1000,
         status = ''paid'', paidAt = Some 2000, paymentMethod = Some ''upi'',
         pen_dueDate = 2592001000, transactionId = Some ''t1'', paidAmount = Some 500\<rparr>"
    by (simp add: payment_def impose_def Let_def penaltySchema_def one_of_def create_def
        example_penalty_def example_payment_def example_store_def empty_store_def
        example_env_def later_env_def thirtyDays_def falsy_num_def or_zero_def
        penaltyData_def updateData_def)
  have h2: "pay_penaltyId (example_payment\<lparr>pay_paidAmount := Some 700\<rparr>)
      = pay_penaltyId example_payment"
    by simp
  have h3: "pay_paymentMethod (example_payment\<lparr>pay_paidAmount := Some 700\<rparr>) \<noteq> []"
    by (simp add: example_payment_def)
  have h4: "\<not> falsy_num (pay_paidAmount (example_payment\<lparr>pay_paidAmount := Some 700\<rparr>))"
    by (simp add: falsy_num_def)
  have h5: "pay_penaltyId example_payment = ''d1''"
    by (simp add: example_payment_def)
  from payment_twice [OF h1 h2 h3 h4, of example_env] h1 h3 h4 h5
  show ?thesis by simp
qed






section \<open>Point balances over sequences of requests\<close>

lemma is_integer_Ints: "is_integer x \<longleftrightarrow> x \<in> \<int>"
  unfolding is_integer_def
  by (metis Ints_of_int Ints_cases floor_of_int)

lemma nonneg_integer_add:
  "nonneg_integer x \<Longrightarrow> 0 \<le> z \<Longrightarrow> nonneg_integer (x + of_int z)"
  by (simp add: nonneg_integer_def is_integer_Ints)

lemma nonneg_integer_diff:
  "nonneg_integer x \<Longrightarrow> is_integer y \<Longrightarrow> \<not> x < y \<Longrightarrow> nonneg_integer (x - y)"
  by (simp add: nonneg_integer_def is_integer_Ints)

lemma list_all_getById:
  "list_all (\<lambda>kd. P (snd kd)) c \<Longrightarrow> getById c k = Some d \<Longrightarrow> P d"
  by (induction c) (auto split: if_splits)

lemma list_all_update:
  "list_all (\<lambda>kd. P (snd kd)) c \<Longrightarrow> (\<And>d. getById c k = Some d \<Longrightarrow> P (f d))
     \<Longrightarrow> list_all (\<lambda>kd. P (snd kd)) (update c k f)"
  by (induction c) auto

lemma qualityMultiplier_nonneg: "qualityMultiplier g = Some qm \<Longrightarrow> 0 \<le> qm"
  by (auto simp: qualityMultiplier_def split: if_splits)

lemma totalPoints_nonneg:
  assumes "rewardSchema r" and "qualityMultiplier (qualityGrade r) = Some qm"
  shows "\<exists>z. 0 \<le> z \<and> totalPoints r qm = of_int z"
proof -
  from assms(1) have q: "0 \<le> wasteQuantity r" and sc: "0 \<le> segregationScore r"
    by (simp_all add: rewardSchema_def)
  from q have "0 \<le> floor (wasteQuantity r * (1 / 10))" by simp
  then have "0 \<le> basePoints (wasteQuantity r)" by (simp add: basePoints_def)
  moreover note qualityMultiplier_nonneg [OF assms(2)]
  moreover from sc have "0 \<le> scoreMultiplier (segregationScore r)"
    by (simp add: scoreMultiplier_def)
  ultimately have "0 \<le> basePoints (wasteQuantity r) * qm * scoreMultiplier (segregationScore r)"
    by (intro mult_nonneg_nonneg)
  then have "0 \<le> floor (basePoints (wasteQuantity r) * qm * scoreMultiplier (segregationScore r))"
    by simp
  then show ?thesis unfolding totalPoints_def by blast
qed

lemma reward_balancesOk:
  assumes "balancesOk s"
  shows "balancesOk (snd (reward e r s))"
proof (cases "rewardSchema r")
  case False
  with assms show ?thesis by (simp add: reward_def)
next
  case True
  show ?thesis
  proof (cases "getById (bulk_generators s) (bulkGeneratorId r)")
    case None
    with assms show ?thesis by (simp add: reward_def)
  next
    case (Some bg)
    show ?thesis
    proof (cases "qualityMultiplier (qualityGrade r)")
      case None
      with assms show ?thesis by (simp add: reward_def split: option.splits)
    next
      case qm: (Some qm)
      from totalPoints_nonneg [OF True qm] obtain z where z: "0 \<le> z" "totalPoints r qm = of_int z"
        by blast
      from assms Some have "nonneg_integer (or_zero (incentives_points bg))"
        by (auto simp: balancesOk_def dest: list_all_getById)
      then have "nonneg_integer (or_zero (incentives_points bg) + totalPoints r qm)"
        using z by (simp add: nonneg_integer_add)
      with assms True Some qm show ?thesis
        by (auto simp: reward_def Let_def balancesOk_def intro!: list_all_update)
    qed
  qed
qed

lemma redeem_balancesOk:
  assumes ok: "balancesOk s"
  shows "balancesOk (snd (redeem e r s))"
proof (cases "redeemSchema r")
  case False
  with ok show ?thesis by (simp add: redeem_def)
next
  case True
  then have int: "is_integer (rd_points r)" by (simp add: redeemSchema_def)
  show ?thesis
  proof (cases "findUser r s")
    case None
    with ok show ?thesis by (simp add: redeem_def)
  next
    case (Some u)
    show ?thesis
    proof (cases "availablePoints u < rd_points r")
      case True
      with ok Some show ?thesis by (simp add: redeem_def Let_def)
    next
      case False
      show ?thesis
      proof (cases u)
        case (CitizenUser k c)
        with Some have g: "getById (citizens s) k = Some c"
          by (auto simp: findUser_def split: if_splits)
        from ok g have "nonneg_integer (or_zero (rewardPoints c))"
          by (auto simp: balancesOk_def dest: list_all_getById)
        with int False CitizenUser
        have "nonneg_integer (or_zero (rewardPoints c) - rd_points r)"
          by (simp add: nonneg_integer_diff)
        with ok Some CitizenUser \<open>redeemSchema r\<close> False show ?thesis
          by (auto simp: redeem_def Let_def balancesOk_def intro!: list_all_update)
      next
        case (BulkGeneratorUser k b)
        with Some have g: "getById (bulk_generators s) k = Some b"
          by (auto simp: findUser_def split: if_splits)
        from ok g have "nonneg_integer (or_zero (incentives_points b))"
          by (auto simp: balancesOk_def dest: list_all_getById)
        with int False BulkGeneratorUser
        have "nonneg_integer (or_zero (incentives_points b) - rd_points r)"
          by (simp add: nonneg_integer_diff)
        with ok Some BulkGeneratorUser \<open>redeemSchema r\<close> False show ?thesis
          by (auto simp: redeem_def Let_def balancesOk_def intro!: list_all_update)
      qed
    qed
  qed
qed

lemma register_balancesOk:
  "balancesOk s \<Longrightarrow> balancesOk (registerCitizen e s)"
  "balancesOk s \<Longrightarrow> balancesOk (registerBulkGenerator e s)"
  by (simp_all add: balancesOk_def registerCitizen_def registerBulkGenerator_def create_def
      nonneg_integer_def is_integer_def)

lemma handle_balancesOk:
  "balancesOk s \<Longrightarrow> awardOrRedeem q \<Longrightarrow> balancesOk (handle e q s)"
  by (cases q) (simp_all add: reward_balancesOk redeem_balancesOk register_balancesOk)

lemma run_balancesOk:
  "balancesOk s \<Longrightarrow> list_all (\<lambda>eq. awardOrRedeem (snd eq)) qs \<Longrightarrow> balancesOk (run s qs)"
  by (induction qs arbitrary: s) (auto simp: handle_balancesOk)

lemma balancesOk_balance:
  "balancesOk s \<Longrightarrow> nonneg_integer (citizenBalance s k) \<and> nonneg_integer (bulkBalance s k)"
  by (auto simp: balancesOk_def citizenBalance_def bulkBalance_def nonneg_integer_def
      is_integer_def split: option.splits dest: list_all_getById)

lemma reward_monotone: "bulkBalance s k \<le> bulkBalance (snd (reward e r s)) k"
proof (cases "rewardSchema r \<and> qualityMultiplier (qualityGrade r) \<noteq> None")
  case False
  then show ?thesis by (auto simp: reward_def split: option.splits)
next
  case True
  then obtain qm where qm: "qualityMultiplier (qualityGrade r) = Some qm" by auto
  from True totalPoints_nonneg [OF _ qm] obtain z where "0 \<le> z" "totalPoints r qm = of_int z"
    by blast
  then have "0 \<le> totalPoints r qm" by simp
  with qm show ?thesis
    by (auto simp: reward_def Let_def bulkBalance_def getById_update split: option.splits)
qed

lemma list_all_take: "list_all P xs \<Longrightarrow> list_all P (take n xs)"
  by (auto simp: list_all_iff dest: in_set_takeD)


text \<open>
  C1. Start from a store in which every point balance is an integer of at least 0, as it
  is for every freshly registered account. After every prefix of every sequence of
  reward and redemption requests (and registrations), valid or not and for whatever
  accounts, every point balance, of citizens and of bulk generators, is an integer of at
  least 0. A reward request never lowers the balance of any bulk generator. A redemption
  that passes the schema and would take the balance it reads below 0 is answered with
  InsufficientPoints and leaves the store as it is.
\<close>

theorem balance_never_negative:
  assumes "balancesOk s" and "list_all (\<lambda>eq. awardOrRedeem (snd eq)) qs"
  shows "(\<forall>n k. nonneg_integer (citizenBalance (run s (take n qs)) k)
              \<and> nonneg_integer (bulkBalance (run s (take n qs)) k))
    \<and> (\<forall>e r k. bulkBalance s k \<le> bulkBalance (snd (reward e r s)) k)
    \<and> (\<forall>e r u. redeemSchema r \<and> findUser r s = Some u \<and> userBalance s u - rd_points r < 0
          \<longrightarrow> redeem e r s = (Inl (InsufficientPoints (userBalance s u) (rd_points r)), s))"
proof -
  have a: "\<forall>n k. nonneg_integer (citizenBalance (run s (take n qs)) k)
              \<and> nonneg_integer (bulkBalance (run s (take n qs)) k)"
  proof (intro allI)
    fix n k
    from assms(2) have "list_all (\<lambda>eq. awardOrRedeem (snd eq)) (take n qs)"
      by (rule list_all_take)
    with assms(1) have "balancesOk (run s (take n qs))"
      by (rule run_balancesOk)
    then show "nonneg_integer (citizenBalance (run s (take n qs)) k)
              \<and> nonneg_integer (bulkBalance (run s (take n qs)) k)"
      by (rule balancesOk_balance)
  qed
  have c: "\<forall>e r u. redeemSchema r \<and> findUser r s = Some u \<and> userBalance s u - rd_points r < 0
          \<longrightarrow> redeem e r s = (Inl (InsufficientPoints (userBalance s u) (rd_points r)), s)"
    by (auto simp: redeem_def Let_def findUser_balance)
  from a c reward_monotone show ?thesis by blast
qed

theorem balance_never_negative_witness:
  "balancesOk empty_store
   \<and> list_all (\<lambda>eq. awardOrRedeem (snd eq)) example_requests
   \<and> bulkBalance (run empty_store example_requests) ''g2'' = 15
   \<and> nonneg_integer (bulkBalance (run empty_store example_requests) ''g2'')"
proof -
  have h1: "balancesOk empty_store"
    by (simp add: balancesOk_def empty_store_def)
  have h2: "list_all (\<lambda>eq. awardOrRedeem (snd eq)) example_requests"
    by (simp add: example_requests_def)
  have h3: "take 3 example_requests = example_requests"
    by (simp add: example_requests_def)
  have h4: "bulkBalance (run empty_store example_requests) ''g2'' = 15"
    by (simp add: example_requests_def empty_store_def registerBulkGenerator_def
        reward_def redeem_def Let_def create_def rewardSchema_def redeemSchema_def
        one_of_def is_integer_def qualityMultiplier_def totalPoints_def basePoints_def
        scoreMultiplier_def findUser_def bulkBalance_def example_reward_def
        example_env_def later_env_def)
  from balance_never_negative [OF h1 h2]
  have "nonneg_integer (bulkBalance (run empty_store (take 3 example_requests)) ''g2'')"
    by blast
  with h1 h2 h3 h4 show ?thesis by simp
qed

section \<open>The life of a penalty\<close>
















section \<open>Points in circulation\<close>























end
